theory Spec2Isabelle
  imports Complex_Main "HOL-Library.Monad_Syntax" "HOL-Library.AList" "HOL-Library.Multiset"
begin

section \<open>Data model (nba\_draft\_sim.py, lines 33--69)\<close>

text \<open>
  Python floats are modelled as \<^typ>\<open>real\<close> (exact arithmetic, no rounding), Python
  ints as \<^typ>\<open>int\<close>, strings as \<^typ>\<open>string\<close>. A name outside ASCII is written as
  its UTF-8 bytes; names are only ever compared and concatenated.

  A \<open>Player\<close> object is modelled by its sixteen dataclass fields, its cached ratings
  dictionary, and \<open>obj_id\<close>, the identity of the Python object (what \<open>is\<close> compares).
  \<open>obj_id\<close> is not a dataclass field and takes no part in \<open>==\<close>.
  The ratings dictionary is modelled in the state it has after the precompute loop of
  lines 228--229: a record of the eleven keys that \<open>build_player_ratings\<close> returns.
  A player whose dictionary is still empty is a \<open>PlayerData\<close>, which no lineup holds.
\<close>

record Ratings =
  finishing :: real
  three :: real
  mid :: real
  ft :: real
  playmaking :: real
  per_def :: real
  int_def :: real
  rebounding :: real
  athletic :: real
  usage :: real
  three_tendency :: real

record PlayerData =
  obj_id :: nat
  name :: string
  pos_primary :: string
  pos_secondary :: "string list"
  era :: string
  ppg :: real
  rpg :: real
  apg :: real
  ts :: real
  three_pct :: real
  ft_pct :: real
  obpm :: real
  dbpm :: real
  ws48 :: real
  three_rate :: real
  height_in :: int
  weight_lb :: int

record Player = PlayerData +
  ratings :: Ratings

definition Player_init ::
  "nat \<Rightarrow> string \<Rightarrow> string \<Rightarrow> string list \<Rightarrow> string \<Rightarrow> real \<Rightarrow> real \<Rightarrow> real \<Rightarrow> real \<Rightarrow> real \<Rightarrow>
   real \<Rightarrow> real \<Rightarrow> real \<Rightarrow> real \<Rightarrow> real \<Rightarrow> int \<Rightarrow> int \<Rightarrow> PlayerData" where
  "Player_init i n pp ps e pg rg ag t tp fp ob db ws tr h w =
     \<lparr>obj_id = i, name = n, pos_primary = pp, pos_secondary = ps, era = e, ppg = pg,
      rpg = rg, apg = ag, ts = t, three_pct = tp, ft_pct = fp, obpm = ob, dbpm = db,
      ws48 = ws, three_rate = tr, height_in = h, weight_lb = w\<rparr>"

definition clamp :: "real \<Rightarrow> real \<Rightarrow> real \<Rightarrow> real" where
  "clamp x lo hi = max lo (min hi x)"

definition scale_to_99 :: "real \<Rightarrow> real \<Rightarrow> real \<Rightarrow> real" where
  "scale_to_99 val lo hi =
     (if hi = lo then 50 else clamp (99 * ((val - lo) / (hi - lo))) 0 99)"

section \<open>Player database (lines 76--181)\<close>

text \<open>
  The list literal of the source, row for row in the source's order; the first argument
  numbers the objects in the order in which the literal creates them.
\<close>

definition PLAYER_DB_literal :: "PlayerData list" where
  "PLAYER_DB_literal = [
    Player_init 0 ''Michael Jordan'' ''SG'' [''SF''] ''90s'' 30.1 6.2 5.3 0.569 0.327 0.835 7.9 1.3 0.250 0.12 78 198,
    Player_init 1 ''LeBron James'' ''SF'' [''PF'', ''PG''] ''10s'' 27.1 7.5 7.3 0.594 0.345 0.735 6.8 1.9 0.232 0.28 81 250,
    Player_init 2 ''Kareem Abdul-Jabbar'' ''C'' [''PF''] ''70s'' 24.6 11.2 3.6 0.592 0.000 0.721 5.7 2.2 0.228 0.00 86 225,
    Player_init 3 ''Magic Johnson'' ''PG'' [''SG''] ''80s'' 19.5 7.2 11.2 0.610 0.303 0.848 6.9 1.0 0.225 0.18 81 215,
    Player_init 4 ''Larry Bird'' ''SF'' [''PF''] ''80s'' 24.3 10.0 6.3 0.564 0.375 0.886 5.6 2.0 0.203 0.24 81 220,
    Player_init 5 ''Shaquille O'Neal'' ''C'' [''PF''] ''00s'' 23.7 10.9 2.5 0.586 0.045 0.527 4.4 2.0 0.208 0.01 85 325,
    Player_init 6 ''Tim Duncan'' ''PF'' [''C''] ''00s'' 19.0 10.8 3.0 0.551 0.179 0.696 2.9 3.5 0.209 0.02 83 250,
    Player_init 7 ''Kobe Bryant'' ''SG'' [''SF''] ''00s'' 25.0 5.2 4.7 0.555 0.329 0.837 4.5 0.7 0.170 0.28 78 212,
    Player_init 8 ''Hakeem Olajuwon'' ''C'' [''PF''] ''90s'' 21.8 11.1 2.5 0.552 0.202 0.712 3.6 2.7 0.178 0.02 84 255,
    Player_init 9 ''Stephen Curry'' ''PG'' [''SG''] ''10s'' 24.7 4.7 6.4 0.628 0.428 0.910 7.7 0.8 0.212 0.55 74 190,
    Player_init 10 ''Kevin Durant'' ''SF'' [''PF''] ''10s'' 27.3 7.1 4.3 0.635 0.388 0.886 5.7 1.8 0.214 0.36 82 240,
    Player_init 11 ''Giannis Antetokounmpo'' ''PF'' [''C'', ''SF''] ''20s'' 24.1 10.3 4.7 0.611 0.286 0.690 6.6 2.2 0.208 0.20 83 242,
    Player_init 12 ''Nikola Jokic'' ''C'' [''PF''] ''20s'' 20.9 10.7 6.9 0.644 0.364 0.829 10.4 2.0 0.260 0.28 83 284,
    Player_init 13 ''Wilt Chamberlain'' ''C'' [''PF''] ''60s'' 30.1 22.9 4.4 0.540 0.000 0.511 5.0 2.0 0.248 0.00 84 275,
    Player_init 14 ''Bill Russell'' ''C'' [''PF''] ''60s'' 15.1 22.5 4.3 0.493 0.000 0.561 1.5 4.8 0.193 0.00 82 215,
    Player_init 15 ''Jerry West'' ''SG'' [''PG''] ''60s'' 27.0 5.8 6.7 0.580 0.000 0.814 6.1 1.1 0.213 0.02 75 175,
    Player_init 16 ''Oscar Robertson'' ''PG'' [''SG''] ''60s'' 25.7 7.5 9.5 0.550 0.000 0.838 6.3 1.2 0.207 0.02 77 205,
    Player_init 17 ''Dirk Nowitzki'' ''PF'' [''C''] ''00s'' 20.7 7.5 2.4 0.580 0.384 0.879 3.8 0.7 0.178 0.32 84 245,
    Player_init 18 ''Kevin Garnett'' ''PF'' [''C''] ''00s'' 17.8 10.0 3.7 0.547 0.275 0.789 4.6 3.0 0.184 0.10 83 240,
    Player_init 19 ''Karl Malone'' ''PF'' [''C''] ''90s'' 25.0 10.1 3.6 0.577 0.274 0.742 4.8 1.4 0.205 0.07 81 250,
    Player_init 20 ''Charles Barkley'' ''PF'' [''SF''] ''90s'' 22.1 11.7 3.9 0.612 0.266 0.735 5.5 0.8 0.216 0.08 78 252,
    Player_init 21 ''Dwyane Wade'' ''SG'' [''PG''] ''00s'' 22.0 4.7 5.4 0.554 0.293 0.765 4.0 1.6 0.159 0.15 76 220,
    Player_init 22 ''Allen Iverson'' ''SG'' [''PG''] ''00s'' 26.7 3.7 6.2 0.518 0.313 0.780 3.8 (-0.5) 0.102 0.32 72 165,
    Player_init 23 ''Kawhi Leonard'' ''SF'' [''SG''] ''20s'' 19.9 6.4 3.0 0.600 0.386 0.857 4.8 2.3 0.212 0.30 79 225,
    Player_init 24 ''Chris Paul'' ''PG'' [''SG''] ''10s'' 17.5 4.5 9.4 0.589 0.371 0.873 6.9 2.3 0.247 0.30 72 175,
    Player_init 25 ''James Harden'' ''SG'' [''PG''] ''10s'' 24.6 5.6 7.1 0.610 0.366 0.860 5.7 0.7 0.222 0.50 77 220,
    Player_init 26 ''Russell Westbrook'' ''PG'' [''SG''] ''10s'' 22.0 7.3 8.4 0.520 0.308 0.785 3.5 0.5 0.137 0.25 75 200,
    Player_init 27 ''Paul Pierce'' ''SF'' [''SG''] ''00s'' 19.7 5.6 3.5 0.568 0.369 0.806 3.6 1.3 0.178 0.31 79 235,
    Player_init 28 ''Ray Allen'' ''SG'' [''SF''] ''00s'' 18.9 4.1 3.4 0.583 0.400 0.892 3.3 0.8 0.157 0.43 77 205,
    Player_init 29 ''Reggie Miller'' ''SG'' [''SF''] ''90s'' 18.2 3.0 3.0 0.614 0.395 0.888 3.1 0.7 0.172 0.40 78 185,
    Player_init 30 ''Steve Nash'' ''PG'' [''SG''] ''00s'' 14.3 3.0 8.5 0.607 0.428 0.904 5.4 (-0.5) 0.212 0.32 75 178,
    Player_init 31 ''Jason Kidd'' ''PG'' [''SG''] ''00s'' 12.6 6.3 8.7 0.515 0.349 0.750 3.6 2.6 0.179 0.30 76 210,
    Player_init 32 ''Gary Payton'' ''PG'' [''SG''] ''90s'' 16.3 3.9 6.7 0.533 0.317 0.729 3.2 1.7 0.159 0.18 76 180,
    Player_init 33 ''Vince Carter'' ''SG'' [''SF''] ''00s'' 16.7 4.3 3.1 0.548 0.374 0.798 2.2 0.6 0.118 0.30 78 220,
    Player_init 34 ''Tracy McGrady'' ''SG'' [''SF''] ''00s'' 19.6 5.6 4.4 0.538 0.338 0.747 4.3 0.5 0.151 0.28 80 225,
    Player_init 35 ''Carmelo Anthony'' ''SF'' [''PF''] ''10s'' 22.5 6.2 2.7 0.545 0.353 0.814 2.3 0.0 0.104 0.29 80 238,
    Player_init 36 ''Chris Bosh'' ''PF'' [''C''] ''10s'' 19.2 8.5 2.0 0.567 0.339 0.800 2.2 1.0 0.158 0.22 83 235,
    Player_init 37 ''Dwight Howard'' ''C'' [''PF''] ''10s'' 15.7 11.8 1.3 0.609 0.180 0.568 1.4 2.8 0.150 0.02 83 265,
    Player_init 38 ''Yao Ming'' ''C'' [''PF''] ''00s'' 19.0 9.2 1.6 0.614 0.100 0.833 3.3 1.5 0.200 0.01 88 310,
    Player_init 39 ''Manu Ginobili'' ''SG'' [''PG''] ''00s'' 13.3 3.5 3.8 0.580 0.370 0.826 4.7 0.9 0.193 0.30 78 205,
    Player_init 40 ''Tony Parker'' ''PG'' [''SG''] ''00s'' 15.5 2.7 5.6 0.551 0.327 0.751 2.3 (-0.3) 0.120 0.12 74 185,
    Player_init 41 ''Pau Gasol'' ''PF'' [''C''] ''10s'' 17.0 9.2 3.2 0.579 0.298 0.752 2.4 1.5 0.174 0.10 84 250,
    Player_init 42 ''Alonzo Mourning'' ''C'' [''PF''] ''00s'' 17.1 8.5 1.1 0.565 0.100 0.692 1.4 3.3 0.160 0.01 82 240,
    Player_init 43 ''Dennis Rodman'' ''PF'' [''SF''] ''90s'' 7.3 13.1 1.8 0.520 0.230 0.584 1.3 2.8 0.161 0.05 79 210,
    Player_init 44 ''Dikembe Mutombo'' ''C'' [''PF''] ''00s'' 9.8 10.3 0.9 0.523 0.000 0.685 (-0.4) 3.0 0.147 0.00 85 245,
    Player_init 45 ''Andre Iguodala'' ''SF'' [''SG''] ''10s'' 11.3 4.9 4.2 0.544 0.329 0.707 2.1 1.9 0.128 0.21 78 215,
    Player_init 46 ''Shane Battier'' ''SF'' [''PF''] ''00s'' 8.6 4.2 1.8 0.580 0.385 0.747 1.0 1.7 0.102 0.40 80 220,
    Player_init 47 ''Trevor Ariza'' ''SF'' [''SG''] ''10s'' 10.4 4.8 2.1 0.530 0.351 0.774 0.5 1.3 0.092 0.45 80 215,
    Player_init 48 ''PJ Tucker'' ''PF'' [''SF''] ''20s'' 6.9 5.5 1.3 0.566 0.363 0.760 0.3 1.4 0.090 0.50 77 245,
    Player_init 49 ''Patrick Beverley'' ''PG'' [''SG''] ''10s'' 8.5 3.4 3.2 0.525 0.372 0.756 0.9 1.9 0.103 0.38 73 180,
    Player_init 50 ''Derrick White'' ''SG'' [''PG''] ''20s'' 12.4 3.4 4.1 0.586 0.368 0.869 1.5 1.5 0.121 0.35 76 190,
    Player_init 51 ''Marcus Smart'' ''PG'' [''SG''] ''20s'' 10.6 3.5 4.6 0.525 0.325 0.782 1.8 1.9 0.105 0.40 76 220,
    Player_init 52 ''Robert Horry'' ''PF'' [''SF''] ''00s'' 7.0 4.8 2.1 0.533 0.341 0.728 0.8 1.0 0.096 0.30 82 240,
    Player_init 53 ''Derek Fisher'' ''PG'' [''SG''] ''00s'' 8.3 2.1 3.0 0.519 0.377 0.813 0.7 0.8 0.084 0.35 73 200,
    Player_init 54 ''Boris Diaw'' ''PF'' [''C''] ''10s'' 8.6 4.4 3.5 0.553 0.334 0.727 1.5 0.9 0.111 0.25 80 250,
    Player_init 55 ''Thabo Sefolosha'' ''SG'' [''SF''] ''10s'' 5.9 3.9 1.5 0.552 0.353 0.747 0.2 1.7 0.087 0.30 79 215,
    Player_init 56 ''Danny Green'' ''SG'' [''SF''] ''10s'' 8.7 3.4 1.5 0.561 0.401 0.797 0.8 1.5 0.110 0.50 78 215,
    Player_init 57 ''Tyson Chandler'' ''C'' [''PF''] ''10s'' 8.2 9.0 0.9 0.638 0.000 0.643 0.3 2.1 0.167 0.00 85 240,
    Player_init 58 ''Steven Adams'' ''C'' [''PF''] ''20s'' 9.2 8.2 1.6 0.595 0.000 0.528 0.7 1.3 0.138 0.01 83 265,
    Player_init 59 ''DeAndre Jordan'' ''C'' [''PF''] ''10s'' 9.0 10.3 1.0 0.647 0.000 0.470 0.3 1.8 0.171 0.01 83 265,
    Player_init 60 ''Jae Crowder'' ''PF'' [''SF''] ''20s'' 10.0 4.3 2.0 0.538 0.353 0.775 0.7 1.1 0.095 0.40 78 235,
    Player_init 61 ''Joe Harris'' ''SG'' [''SF''] ''20s'' 10.6 3.2 1.6 0.621 0.439 0.796 1.2 0.3 0.123 0.60 78 220,
    Player_init 62 ''Kyle Korver'' ''SG'' [''SF''] ''10s'' 9.7 2.8 1.7 0.604 0.429 0.878 0.8 0.3 0.130 0.60 79 212,
    Player_init 63 ''Kendrick Perkins'' ''C'' [''PF''] ''10s'' 5.4 5.8 0.9 0.515 0.000 0.589 (-1.4) 2.5 0.067 0.00 82 270,
    Player_init 64 ''Nick Collison'' ''PF'' [''C''] ''10s'' 5.9 5.2 1.0 0.552 0.100 0.768 0.3 1.1 0.089 0.01 81 255,
    Player_init 65 ''Iman Shumpert'' ''SG'' [''SF''] ''10s'' 7.3 3.4 1.8 0.497 0.337 0.757 (-0.5) 1.3 0.062 0.35 77 215,
    Player_init 66 ''Avery Bradley'' ''SG'' [''PG''] ''10s'' 11.0 2.9 1.8 0.533 0.366 0.781 0.8 1.2 0.092 0.38 74 180,
    Player_init 67 ''Cory Joseph'' ''PG'' [''SG''] ''20s'' 7.0 2.5 3.0 0.538 0.344 0.780 0.1 0.5 0.080 0.25 75 200,
    Player_init 68 ''Royce O'Neale'' ''SF'' [''PF''] ''20s'' 8.3 4.6 2.4 0.565 0.381 0.773 0.5 0.8 0.098 0.45 77 225,
    Player_init 69 ''Delon Wright'' ''PG'' [''SG''] ''20s'' 7.0 3.2 3.0 0.550 0.358 0.788 1.1 1.3 0.106 0.30 77 185,
    Player_init 70 ''Doug Christie'' ''SG'' [''SF''] ''00s'' 11.2 4.1 3.6 0.531 0.355 0.788 1.4 1.9 0.109 0.25 77 200,
    Player_init 71 ''Tayshaun Prince'' ''SF'' [''PF''] ''00s'' 11.1 4.3 2.4 0.528 0.370 0.757 0.5 1.5 0.093 0.28 81 215,
    Player_init 72 ''Raja Bell'' ''SG'' [''SF''] ''00s'' 9.9 2.9 1.7 0.552 0.406 0.780 0.3 1.1 0.091 0.45 77 210,
    Player_init 73 ''Jared Dudley'' ''SF'' [''PF''] ''10s'' 7.3 3.2 1.5 0.548 0.390 0.740 0.1 0.7 0.084 0.35 78 230,
    Player_init 74 ''Quentin Richardson'' ''SG'' [''SF''] ''00s'' 10.3 4.7 1.5 0.517 0.357 0.700 0.3 0.4 0.076 0.42 78 220,
    Player_init 75 ''Anthony Tolliver'' ''PF'' [''C''] ''10s'' 6.4 3.4 0.8 0.551 0.379 0.773 0.2 0.3 0.070 0.42 80 240,
    Player_init 76 ''Michael Cooper'' ''SG'' [''SF''] ''80s'' 8.9 3.2 4.2 0.531 0.345 0.833 1.6 1.5 0.118 0.25 77 174,
    Player_init 77 ''Kurt Rambis'' ''PF'' [''C''] ''80s'' 5.2 5.6 1.1 0.540 0.000 0.700 0.3 0.7 0.075 0.01 80 213,
    Player_init 78 ''Bill Cartwright'' ''C'' [''PF''] ''90s'' 13.2 6.3 1.4 0.531 0.000 0.779 0.2 1.0 0.108 0.01 85 245,
    Player_init 79 ''Horace Grant'' ''PF'' [''C''] ''90s'' 11.2 8.1 2.2 0.558 0.200 0.741 1.5 1.4 0.135 0.10 81 215,
    Player_init 80 ''Bryon Russell'' ''SF'' [''SG''] ''90s'' 8.9 3.7 1.3 0.530 0.379 0.757 0.6 0.8 0.097 0.35 79 215,
    Player_init 81 ''Luc Longley'' ''C'' [''PF''] ''90s'' 7.2 4.9 1.7 0.525 0.000 0.737 0.3 0.9 0.089 0.01 86 265,
    Player_init 82 ''Derek Harper'' ''PG'' [''SG''] ''90s'' 13.3 2.4 5.5 0.528 0.359 0.800 1.1 1.5 0.120 0.30 73 185,
    Player_init 83 ''Rick Fox'' ''SF'' [''PF''] ''00s'' 9.6 3.8 2.8 0.537 0.348 0.770 0.9 1.1 0.093 0.33 79 230,
    Player_init 84 ''Doug Christie'' ''SG'' [''SF''] ''00s'' 11.2 4.1 3.6 0.531 0.355 0.788 1.4 1.9 0.109 0.25 77 200,
    Player_init 85 ''Antonio Davis'' ''PF'' [''C''] ''90s'' 10.0 7.5 1.2 0.513 0.000 0.758 0.6 1.2 0.110 0.01 81 245,
    Player_init 86 ''Matt Bonner'' ''PF'' [''C''] ''00s'' 6.9 3.1 0.8 0.582 0.414 0.782 (-0.3) 0.2 0.100 0.60 82 235,
    Player_init 87 ''James Posey'' ''SF'' [''SG''] ''00s'' 8.6 4.7 1.6 0.530 0.369 0.795 0.5 1.0 0.102 0.38 80 215,
    Player_init 88 (''Eduardo N'' @ [CHR 0xC3, CHR 0xA1] @ ''jera'') ''PF'' [''SF''] ''00s'' 5.1 3.7 0.9 0.525 0.200 0.710 (-0.4) 1.0 0.070 0.10 80 235,
    Player_init 89 ''Jared Jeffries'' ''SF'' [''PF''] ''00s'' 4.8 4.1 1.3 0.493 0.265 0.685 (-0.5) 1.1 0.068 0.20 81 230,
    Player_init 90 ''Desmond Mason'' ''SG'' [''SF''] ''00s'' 12.1 4.5 1.6 0.519 0.303 0.780 0.2 0.6 0.091 0.18 77 222,
    Player_init 91 ''Keith Bogans'' ''SG'' [''SF''] ''00s'' 6.3 2.7 1.3 0.494 0.353 0.754 (-0.4) 0.6 0.073 0.35 77 215,
    Player_init 92 (''Rasho Nesterovi'' @ [CHR 0xC4, CHR 0x87]) ''C'' [''PF''] ''00s'' 6.8 5.1 0.9 0.526 0.000 0.732 0.2 1.4 0.094 0.01 84 250,
    Player_init 93 ''Steve Blake'' ''PG'' [''SG''] ''00s'' 6.5 2.1 4.0 0.520 0.388 0.796 0.3 0.6 0.082 0.34 75 185,
    Player_init 94 ''Francisco Garcia'' ''SG'' [''SF''] ''00s'' 7.9 2.6 1.4 0.531 0.362 0.805 0.1 0.4 0.087 0.38 78 195,
    Player_init 95 ''Reggie Evans'' ''PF'' [''C''] ''00s'' 4.1 7.1 0.4 0.510 0.000 0.540 (-1.6) 2.3 0.071 0.00 80 245,
    Player_init 96 ''Ish Smith'' ''PG'' [''SG''] ''20s'' 7.3 2.4 3.8 0.502 0.310 0.725 0.2 0.1 0.085 0.25 72 175,
    Player_init 97 ''Maxi Kleber'' ''PF'' [''C''] ''20s'' 7.3 4.2 1.1 0.552 0.366 0.795 0.6 1.2 0.108 0.48 82 230,
    Player_init 98 ''Royce White'' ''PF'' [''SF''] ''10s'' 3.0 2.3 1.2 0.465 0.250 0.667 (-1.2) 0.5 0.060 0.20 80 260,
    Player_init 99 ''Cody Zeller'' ''C'' [''PF''] ''20s'' 8.5 6.0 1.3 0.568 0.229 0.758 0.4 1.0 0.105 0.05 84 240,
    Player_init 100 ''Cam Payne'' ''PG'' [''SG''] ''20s'' 8.9 2.0 3.7 0.542 0.360 0.780 0.5 0.3 0.096 0.35 73 183,
    Player_init 101 ''Darius Bazley'' ''PF'' [''SF''] ''20s'' 7.3 4.3 0.9 0.495 0.321 0.691 (-0.8) 1.0 0.082 0.30 80 220,
    Player_init 102 ''Isaiah Joe'' ''SG'' [''PG''] ''20s'' 6.5 1.8 1.2 0.598 0.407 0.860 (-0.4) 0.2 0.097 0.66 75 170]"


section \<open>Attribute builder (lines 187--229)\<close>

definition build_player_ratings :: "'a PlayerData_scheme \<Rightarrow> Ratings" where
  "build_player_ratings p =
     \<lparr>finishing = scale_to_99 (ts p) 0.50 0.65 * 0.7 + scale_to_99 (ppg p) 12 32 * 0.3,
      three = scale_to_99 (three_pct p) 0.28 0.44 * 0.8 + scale_to_99 (three_rate p) 0.02 0.55 * 0.2,
      mid = (scale_to_99 (ts p) 0.52 0.60 + scale_to_99 (ppg p) 12 30) / 2,
      ft = scale_to_99 (ft_pct p) 0.60 0.92,
      playmaking = scale_to_99 (apg p) 2.0 11.5 * 0.7 + scale_to_99 (obpm p) 0.0 10.5 * 0.3,
      per_def = scale_to_99 (dbpm p) 0.0 4.8 * 0.7 + scale_to_99 (ws48 p) 0.10 0.26 * 0.3,
      int_def = scale_to_99 (dbpm p) 0.0 4.8 * 0.6 + scale_to_99 (rpg p) 3.5 13.0 * 0.4,
      rebounding = scale_to_99 (rpg p) 3.5 13.0 * 0.7 + scale_to_99 (real_of_int (height_in p)) 72 86 * 0.3,
      athletic = scale_to_99 (ws48 p) 0.10 0.26 * 0.5 + scale_to_99 (ts p) 0.50 0.65 * 0.5,
      usage = clamp (0.25 + (ppg p - 15) * 0.015) 0.10 0.40,
      three_tendency = clamp (three_rate p) 0.00 0.60\<rparr>"

text \<open>The body of the loop of lines 228--229: \<open>p.ratings = build_player_ratings(p)\<close>.\<close>

definition with_ratings :: "PlayerData \<Rightarrow> Player" where
  "with_ratings p =
     \<lparr>obj_id = obj_id p, name = PlayerData.name p, pos_primary = pos_primary p,
      pos_secondary = pos_secondary p, era = era p, ppg = ppg p, rpg = rpg p, apg = apg p,
      ts = ts p, three_pct = three_pct p, ft_pct = ft_pct p, obpm = obpm p, dbpm = dbpm p,
      ws48 = ws48 p, three_rate = three_rate p, height_in = height_in p,
      weight_lb = weight_lb p, ratings = build_player_ratings p\<rparr>"

definition PLAYER_DB :: "Player list" where
  "PLAYER_DB = map with_ratings PLAYER_DB_literal"

text \<open>
  Dataclass equality (\<open>==\<close>): the tuples of the fields are compared, the ratings
  dictionary included, the object's identity not.
\<close>

definition dataclass_eq :: "Player \<Rightarrow> Player \<Rightarrow> bool" where
  "dataclass_eq p q \<longleftrightarrow>
     PlayerData.name p = PlayerData.name q \<and> pos_primary p = pos_primary q \<and>
     pos_secondary p = pos_secondary q \<and> era p = era q \<and> ppg p = ppg q \<and> rpg p = rpg q \<and>
     apg p = apg q \<and> ts p = ts q \<and> three_pct p = three_pct q \<and> ft_pct p = ft_pct q \<and>
     obpm p = obpm q \<and> dbpm p = dbpm q \<and> ws48 p = ws48 q \<and> three_rate p = three_rate q \<and>
     height_in p = height_in q \<and> weight_lb p = weight_lb q \<and> ratings p = ratings q"

section \<open>Team and synergy (lines 235--263)\<close>

definition POSITIONS :: "string list" where
  "POSITIONS = [''PG'', ''SG'', ''SF'', ''PF'', ''C'']"

text \<open>
  A lineup is a dictionary from position to player. A function fails with \<open>None\<close>
  where the Python raises: here \<open>KeyError\<close> for a position the lineup lacks (or the
  \<open>AttributeError\<close> that follows from a slot holding Python's \<open>None\<close>).
\<close>

record Team =
  name :: string
  lineup :: "string \<rightharpoonup> Player"

record Synergy =
  spacing :: real
  rim_pressure :: real
  ball_move :: real
  int_def :: real
  per_def :: real
  rebounding :: real
  pace :: real

definition all_players :: "Team \<Rightarrow> Player list option" where
  "all_players t = those (map (lineup t) POSITIONS)"

definition synergy_of :: "Player list \<Rightarrow> Synergy" where
  "synergy_of players =
     (let n = real (length players);
          spacing = sum_list (map (\<lambda>p. three (ratings p) * (0.5 + three_tendency (ratings p))) players) / n;
          rim_pressure = sum_list (map (\<lambda>p. finishing (ratings p)) players) / n;
          ball_move = sum_list (map (\<lambda>p. playmaking (ratings p)) players) / n;
          int_def = sum_list (map (\<lambda>p. if pos_primary p \<in> set [''PF'', ''C'']
                                         then Ratings.int_def (ratings p)
                                         else Ratings.int_def (ratings p) * 0.8) players) / n;
          per_def = sum_list (map (\<lambda>p. if pos_primary p \<in> set [''PG'', ''SG'', ''SF'']
                                         then Ratings.per_def (ratings p)
                                         else Ratings.per_def (ratings p) * 0.8) players) / n;
          reb = sum_list (map (\<lambda>p. Ratings.rebounding (ratings p)) players) / n;
          pace = 96 + (ball_move - 50) * 0.1 + (spacing - 50) * 0.05
      in \<lparr>spacing = spacing, rim_pressure = rim_pressure, ball_move = ball_move,
          int_def = int_def, per_def = per_def, rebounding = reb,
          pace = clamp pace 90 104\<rparr>)"

definition team_synergy :: "Team \<Rightarrow> Synergy option" where
  "team_synergy t = map_option synergy_of (all_players t)"

section \<open>The random module\<close>

text \<open>
  The module-level generator of Python's \<open>random\<close> is global state. Its state is
  modelled by the sequence of floats that \<open>random.random()\<close> is going to return:
  a draw returns the head and leaves the tail. \<open>random.seed(s)\<close> replaces the state by
  one that depends on \<open>s\<close> only; the function from seeds to states is a parameter
  (\<open>seed_state\<close>) of \<open>simulate_game\<close>. Nothing is assumed about the drawn numbers.

  \<open>random.choices(population, weights, k=1)[0]\<close> follows the standard library:
  cumulative weights, one draw scaled by their total, and a binary search
  \<open>bisect(cum_weights, r * total, 0, n - 1)\<close>.
\<close>

type_synonym rng = "nat \<Rightarrow> real"

definition random_random :: "rng \<Rightarrow> real \<times> rng" where
  "random_random g = (g 0, \<lambda>n. g (Suc n))"

fun accumulate_from :: "real \<Rightarrow> real list \<Rightarrow> real list" where
  "accumulate_from acc [] = []"
| "accumulate_from acc (w # ws) = (acc + w) # accumulate_from (acc + w) ws"

definition accumulate :: "real list \<Rightarrow> real list" where
  "accumulate ws = (case ws of [] \<Rightarrow> [] | w # rest \<Rightarrow> w # accumulate_from w rest)"

function bisect :: "real list \<Rightarrow> real \<Rightarrow> nat \<Rightarrow> nat \<Rightarrow> nat option" where
  "bisect a x lo hi =
     (if lo < hi then
        (let mid = (lo + hi) div 2 in
         if length a \<le> mid then None
         else if x < a ! mid then bisect a x lo mid
         else bisect a x (mid + 1) hi)
      else Some lo)"
  by pat_completeness auto
termination
  by (relation "measure (\<lambda>(a, x, lo, hi). hi - lo)") auto

declare bisect.simps [simp del]

definition choices :: "'a list \<Rightarrow> real list \<Rightarrow> rng \<Rightarrow> ('a \<times> rng) option" where
  "choices population weights g =
     (let n = length population;
          cum_weights = accumulate weights
      in if length cum_weights \<noteq> n then None
         else if cum_weights = [] then None
         else let total = last cum_weights
              in if total \<le> 0 then None
                 else let (r, g') = random_random g
                      in case bisect cum_weights (r * total) 0 (n - 1) of
                           None \<Rightarrow> None
                         | Some i \<Rightarrow> Some (population ! i, g'))"

section \<open>Simulation engine: one possession (lines 269--385)\<close>

text \<open>
  The statistics dictionary of a possession is an association list in insertion order
  with one entry per key. \<open>bump stats key v\<close> is the statement
  \<open>stats[key] = stats.get(key, 0) + v\<close>.
\<close>

type_synonym stats = "(string \<times> int) list"

definition dict_get :: "('k \<times> 'v) list \<Rightarrow> 'k \<Rightarrow> 'v \<Rightarrow> 'v" where
  "dict_get d k dflt = (case map_of d k of None \<Rightarrow> dflt | Some v \<Rightarrow> v)"

definition bump :: "stats \<Rightarrow> string \<Rightarrow> int \<Rightarrow> stats" where
  "bump stats key v = AList.update key (dict_get stats key 0 + v) stats"

definition turnover_prob :: "Synergy \<Rightarrow> Synergy \<Rightarrow> real" where
  "turnover_prob off_syn def_syn =
     (let base_tov = 0.125
      in clamp (base_tov - (ball_move off_syn - 50) * 0.001
                         + (Synergy.per_def def_syn - 50) * 0.001) 0.06 0.18)"

definition assist_prob :: "Synergy \<Rightarrow> Player \<Rightarrow> real" where
  "assist_prob off_syn shooter =
     (let assist_raw = 0.45
            + (ball_move off_syn - 50) * 0.012
            + (spacing off_syn - 50) * 0.006
            + (playmaking (ratings shooter) - 50) * 0.015
      in clamp assist_raw 0.45 0.97)"

definition three_prob :: "Synergy \<Rightarrow> Synergy \<Rightarrow> Player \<Rightarrow> real" where
  "three_prob off_syn def_syn shooter =
     clamp (0.05 + three_tendency (ratings shooter) + (spacing off_syn - 50) * 0.002
                 - (Synergy.per_def def_syn - 50) * 0.0015) 0.03 0.65"

definition make_prob :: "Synergy \<Rightarrow> Synergy \<Rightarrow> Player \<Rightarrow> bool \<Rightarrow> real" where
  "make_prob off_syn def_syn shooter is_three =
     (let (shot_skill, def_impact) =
            (if is_three then (three (ratings shooter), Synergy.per_def def_syn)
             else let inside_bias =
                        clamp ((rim_pressure off_syn - Synergy.int_def def_syn) * 0.01 + 0.5) 0.3 0.7
                  in (inside_bias * finishing (ratings shooter)
                        + (1 - inside_bias) * mid (ratings shooter),
                      0.7 * Synergy.int_def def_syn + 0.3 * Synergy.per_def def_syn));
          base = (shot_skill - def_impact) * 0.0035 + 0.48;
          base = (if is_three then base - 0.07 else base)
      in clamp base (if \<not> is_three then 0.30 else 0.24) (if \<not> is_three then 0.73 else 0.52))"

definition foul_prob :: "Synergy \<Rightarrow> Player \<Rightarrow> real" where
  "foul_prob def_syn shooter =
     clamp (0.05 + (finishing (ratings shooter) - 50) * 0.002
                 - (Synergy.int_def def_syn - 50) * 0.001) 0.03 0.18"

text \<open>Lines 348--352: the loop \<open>for _ in range(2)\<close> over the free throws.\<close>

definition ft_prob :: "Synergy \<Rightarrow> Player \<Rightarrow> real" where
  "ft_prob def_syn shooter =
     clamp (0.44 + (ft (ratings shooter) - 50) * 0.006
                 - (Synergy.int_def def_syn - 50) * 0.001) 0.50 0.95"

fun free_throws :: "nat \<Rightarrow> Synergy \<Rightarrow> Player \<Rightarrow> int \<Rightarrow> rng \<Rightarrow> int \<times> rng" where
  "free_throws 0 def_syn shooter ft_makes g = (ft_makes, g)"
| "free_throws (Suc k) def_syn shooter ft_makes g =
     (let (r, g') = random_random g
      in free_throws k def_syn shooter
           (if r < ft_prob def_syn shooter then ft_makes + 1 else ft_makes) g')"

definition putback_prob :: "Synergy \<Rightarrow> Player \<Rightarrow> real" where
  "putback_prob def_syn shooter =
     clamp (0.54 + (finishing (ratings shooter) - 50) * 0.004
                 - (Synergy.int_def def_syn - 50) * 0.003) 0.40 0.80"

text \<open>
  \<open>take_shot\<close> is lines 285--327 of \<open>possession\<close>: from the choice of the shooter to
  the draw that decides whether the shot is made. It returns the local variables that
  the rest of the function reads. The foul draw is consumed only for a two-point
  attempt (\<open>and\<close> does not evaluate its right operand after a false left one).
\<close>

record Attempt =
  players :: "Player list"
  shooter :: Player
  assisted :: bool
  is_three :: bool
  drew_foul :: bool
  made :: bool

definition take_shot :: "Team \<Rightarrow> Synergy \<Rightarrow> Synergy \<Rightarrow> rng \<Rightarrow> (Attempt \<times> rng) option" where
  "take_shot off off_syn def_syn g1 = do {
     players \<leftarrow> all_players off;
     let weights = map (\<lambda>p. max 0.05 (usage (ratings p))) players;
     (shooter, g2) \<leftarrow> choices players weights g1;
     let (r3, g3) = random_random g2;
     let assisted = (r3 < assist_prob off_syn shooter);
     let (r4, g4) = random_random g3;
     let is_three = (r4 < three_prob off_syn def_syn shooter);
     let (drew_foul, g5) =
           (if is_three then (False, g4)
            else let (r5, g5) = random_random g4 in (r5 < foul_prob def_syn shooter, g5));
     let (r6, g6) = random_random g5;
     let made = (r6 < make_prob off_syn def_syn shooter is_three);
     Some (\<lparr>players = players, shooter = shooter, assisted = assisted,
            is_three = is_three, drew_foul = drew_foul, made = made\<rparr>, g6)
   }"

text \<open>Lines 329--341: the made shot, and the assist credited to a teammate.\<close>

definition made_basket :: "Attempt \<Rightarrow> rng \<Rightarrow> ((int \<times> stats) \<times> rng) option" where
  "made_basket a g =
     (let points = (if is_three a then 3 else 2);
          stats = bump [] (PlayerData.name (shooter a) @ ''_pts'') points;
          stats = bump stats (PlayerData.name (shooter a) @ ''_fga'') 1;
          stats = bump stats (PlayerData.name (shooter a) @ ''_fgm'') 1
      in if assisted a then
           (let mates = filter (\<lambda>p. obj_id p \<noteq> obj_id (shooter a)) (players a);
                weights = map (\<lambda>tm. max 1.0 (playmaking (ratings tm))) mates
            in case choices mates weights g of
                 None \<Rightarrow> None
               | Some (passer, g') \<Rightarrow>
                   Some ((points, bump stats (PlayerData.name passer @ ''_ast'') 1), g'))
         else Some ((points, stats), g))"

text \<open>Lines 359--385: the rebound, and the putback after an offensive rebound.\<close>

definition rebound_chain ::
  "Team \<Rightarrow> Synergy \<Rightarrow> Synergy \<Rightarrow> Attempt \<Rightarrow> stats \<Rightarrow> rng \<Rightarrow> ((int \<times> stats) \<times> rng) option" where
  "rebound_chain defn off_syn def_syn a stats g =
     (let off_reb_edge = (Synergy.rebounding off_syn - Synergy.rebounding def_syn) * 0.003 + 0.24;
          (r, g1) = random_random g;
          oreb = (r < clamp off_reb_edge 0.16 0.34)
      in if oreb then
           (let weights = map (\<lambda>p. max 1.0 (Ratings.rebounding (ratings p))) (players a)
            in case choices (players a) weights g1 of
                 None \<Rightarrow> None
               | Some (boarder, g2) \<Rightarrow>
                   (let stats = bump stats (PlayerData.name boarder @ ''_orb'') 1;
                        (r', g3) = random_random g2
                    in if r' < putback_prob def_syn (shooter a) then
                         (let stats = bump stats (PlayerData.name (shooter a) @ ''_pts'') 2;
                              stats = bump stats (PlayerData.name (shooter a) @ ''_fga'') 1;
                              stats = bump stats (PlayerData.name (shooter a) @ ''_fgm'') 1
                          in Some ((2, stats), g3))
                       else
                         Some ((0, bump stats (PlayerData.name (shooter a) @ ''_fga'') 1), g3)))
         else
           (case all_players defn of
              None \<Rightarrow> None
            | Some defenders \<Rightarrow>
                (let weights_def = map (\<lambda>p. max 1.0 (Ratings.rebounding (ratings p))) defenders
                 in case choices defenders weights_def g1 of
                      None \<Rightarrow> None
                    | Some (dboarder, g2) \<Rightarrow>
                        Some ((0, bump stats (PlayerData.name dboarder @ ''_drb'') 1), g2))))"

text \<open>Lines 343--385: the missed shot.\<close>

definition missed_shot ::
  "Team \<Rightarrow> Synergy \<Rightarrow> Synergy \<Rightarrow> Attempt \<Rightarrow> rng \<Rightarrow> ((int \<times> stats) \<times> rng) option" where
  "missed_shot defn off_syn def_syn a g =
     (let stats = bump [] (PlayerData.name (shooter a) @ ''_fga'') 1
      in if drew_foul a then
           (let (ft_makes, g') = free_throws 2 def_syn (shooter a) 0 g
            in if ft_makes \<noteq> 0 then
                 (let stats = bump stats (PlayerData.name (shooter a) @ ''_pts'') ft_makes;
                      stats = bump stats (PlayerData.name (shooter a) @ ''_fta'') 2;
                      stats = bump stats (PlayerData.name (shooter a) @ ''_ftm'') ft_makes
                  in Some ((ft_makes, stats), g'))
               else rebound_chain defn off_syn def_syn a stats g')
         else rebound_chain defn off_syn def_syn a stats g)"

definition possession :: "Team \<Rightarrow> Team \<Rightarrow> rng \<Rightarrow> ((int \<times> stats) \<times> rng) option" where
  "possession off defn g =
     (case team_synergy off of
        None \<Rightarrow> None
      | Some off_syn \<Rightarrow>
     (case team_synergy defn of
        None \<Rightarrow> None
      | Some def_syn \<Rightarrow>
          (let tov = turnover_prob off_syn def_syn;
               (r, g1) = random_random g
           in if r < tov then Some ((0, []), g1)
              else (case take_shot off off_syn def_syn g1 of
                      None \<Rightarrow> None
                    | Some (a, g2) \<Rightarrow>
                        if made a then made_basket a g2
                        else missed_shot defn off_syn def_syn a g2))))"

section \<open>Simulation engine: the game (lines 389--424)\<close>

text \<open>
  \<open>k.rsplit('_', 1)\<close> cuts a key at its last underscore; unpacking the result into
  two names raises \<open>ValueError\<close> for a key without underscore.
\<close>

fun rsplit1 :: "string \<Rightarrow> (string \<times> string) option" where
  "rsplit1 [] = None"
| "rsplit1 (c # cs) =
     (case rsplit1 cs of
        Some (a, b) \<Rightarrow> Some (c # a, b)
      | None \<Rightarrow> if c = CHR ''_'' then Some ([], cs) else None)"

type_synonym box = "(string \<times> stats) list"

definition new_row :: stats where
  "new_row = [(''pts'', 0), (''fga'', 0), (''fgm'', 0), (''fta'', 0), (''ftm'', 0),
              (''ast'', 0), (''orb'', 0), (''drb'', 0)]"

fun merge_stats :: "stats \<Rightarrow> box \<Rightarrow> box option" where
  "merge_stats [] box = Some box"
| "merge_stats ((k, v) # updates) box =
     (case rsplit1 k of
        None \<Rightarrow> None
      | Some (player_key, stat) \<Rightarrow>
          (let box = (if map_of box player_key = None
                      then AList.update player_key new_row box else box);
               row = dict_get box player_key [];
               row = AList.update stat (dict_get row stat 0 + v) row
           in merge_stats updates (AList.update player_key row box)))"

text \<open>Python's \<open>int(x)\<close> for a float: truncation towards zero.\<close>

definition py_int :: "real \<Rightarrow> int" where
  "py_int x = (if 0 \<le> x then \<lfloor>x\<rfloor> else \<lceil>x\<rceil>)"

text \<open>The loop \<open>for i in range(possessions*2)\<close>, over the list of its indices.\<close>

fun game_loop ::
  "Team \<Rightarrow> Team \<Rightarrow> nat list \<Rightarrow> int \<times> int \<times> box \<times> rng \<Rightarrow> (int \<times> int \<times> box \<times> rng) option" where
  "game_loop team_a team_b [] st = Some st"
| "game_loop team_a team_b (i # rest) (score_a, score_b, box, g) =
     (if i mod 2 = 0 then
        (case possession team_a team_b g of
           None \<Rightarrow> None
         | Some ((pts, updates), g') \<Rightarrow>
             (case merge_stats updates box of
                None \<Rightarrow> None
              | Some box' \<Rightarrow> game_loop team_a team_b rest (score_a + pts, score_b, box', g')))
      else
        (case possession team_b team_a g of
           None \<Rightarrow> None
         | Some ((pts, updates), g') \<Rightarrow>
             (case merge_stats updates box of
                None \<Rightarrow> None
              | Some box' \<Rightarrow> game_loop team_a team_b rest (score_a, score_b + pts, box', g'))))"

record GameResult =
  score :: "int \<times> int"
  box :: box
  syn :: "(string \<times> Synergy) list"
  possessions :: int

definition simulate_game ::
  "(int \<Rightarrow> rng) \<Rightarrow> Team \<Rightarrow> Team \<Rightarrow> int option \<Rightarrow> rng \<Rightarrow> (GameResult \<times> rng) option" where
  "simulate_game seed_state team_a team_b seed g =
     (let g0 = (case seed of None \<Rightarrow> g | Some s \<Rightarrow> seed_state s)
      in case team_synergy team_a of
           None \<Rightarrow> None
         | Some a_syn \<Rightarrow>
        (case team_synergy team_b of
           None \<Rightarrow> None
         | Some b_syn \<Rightarrow>
             (let pace = (pace a_syn + pace b_syn) / 2.0;
                  possessions = py_int pace
              in case game_loop team_a team_b [0 ..< nat (possessions * 2)] (0, 0, [], g0) of
                   None \<Rightarrow> None
                 | Some (score_a, score_b, box', g') \<Rightarrow>
                     Some (\<lparr>score = (score_a, score_b), box = box',
                            syn = AList.update (Team.name team_b) b_syn [(Team.name team_a, a_syn)],
                            possessions = possessions * 2\<rparr>, g'))))"

section \<open>Command-line draft (nba\_draft\_sim.py, lines 430--465)\<close>

definition list_by_position :: "string \<Rightarrow> Player list \<Rightarrow> Player list" where
  "list_by_position pos pool =
     filter (\<lambda>p. pos_primary p = pos \<or> pos \<in> set (pos_secondary p)) pool"

text \<open>
  \<open>available.remove(sel)\<close>: Python's \<open>list.remove\<close> deletes the first element that
  is the argument or equals it (\<open>==\<close>), and raises \<open>ValueError\<close> when there is none.
\<close>

fun list_remove :: "Player \<Rightarrow> Player list \<Rightarrow> Player list option" where
  "list_remove x [] = None"
| "list_remove x (y # ys) =
     (if obj_id y = obj_id x \<or> dataclass_eq y x then Some ys
      else map_option ((#) y) (list_remove x ys))"

text \<open>
  \<open>draft_team\<close> reads the user's choices from the terminal and shows, for each position,
  a random sample of at most five candidates. Both are inputs of the model: \<open>sels\<close> lists
  the player objects that \<open>find_player\<close> returns for the five positions, each one an
  element of the options shown and so of \<open>candidates\<close>. A list of choices that the
  program cannot produce gives \<open>None\<close>, as does the \<open>ValueError\<close> for a position
  without candidates.
\<close>

fun draft_positions ::
  "string list \<Rightarrow> Player list \<Rightarrow> (string \<rightharpoonup> Player) \<Rightarrow> Player list \<Rightarrow>
   ((string \<rightharpoonup> Player) \<times> Player list) option" where
  "draft_positions [] sels lineup' available = Some (lineup', available)"
| "draft_positions (pos # rest) sels lineup' available =
     (let candidates = list_by_position pos available
      in if candidates = [] then None
         else (case sels of
                 [] \<Rightarrow> None
               | sel # sels' \<Rightarrow>
                   if sel \<notin> set candidates then None
                   else (case list_remove sel available of
                           None \<Rightarrow> None
                         | Some available' \<Rightarrow>
                             draft_positions rest sels' (lineup'(pos \<mapsto> sel)) available')))"

definition draft_team :: "string \<Rightarrow> Player list \<Rightarrow> Player list \<Rightarrow> (Team \<times> Player list) option" where
  "draft_team team_name sels available =
     map_option (\<lambda>(lineup, available'). (\<lparr>name = team_name, lineup = lineup\<rparr>, available'))
       (draft_positions POSITIONS sels Map.empty available)"

text \<open>Lines 498 and 523--524: the manual draft of the main program.\<close>

definition manual_draft :: "Player list \<Rightarrow> Player list \<Rightarrow> (Team \<times> Team \<times> Player list) option" where
  "manual_draft sels_a sels_b =
     (case draft_team ''Team A'' sels_a PLAYER_DB of
        None \<Rightarrow> None
      | Some (team_a, pool) \<Rightarrow>
          (case draft_team ''Team B'' sels_b pool of
             None \<Rightarrow> None
           | Some (team_b, pool') \<Rightarrow> Some (team_a, team_b, pool')))"

section \<open>Web draft (app.py, lines 81--164)\<close>

text \<open>
  The session state of the web application, without the seed text and the cache of the
  options shown for the current pick (neither is read by the draft logic). A slot of a
  team dictionary that holds Python's \<open>None\<close> is \<open>None\<close> in the map.
\<close>

record draft_state =
  pool :: "Player list"
  team_a :: "string \<rightharpoonup> Player"
  team_b :: "string \<rightharpoonup> Player"
  draft_round :: int
  draft_index :: int
  history :: "(string \<times> string \<times> Player) list"

definition reset_all :: draft_state where
  "reset_all = \<lparr>pool = PLAYER_DB, team_a = Map.empty, team_b = Map.empty,
                draft_round = 1, draft_index = 0, history = []\<rparr>"

definition current_team_name :: "draft_state \<Rightarrow> string" where
  "current_team_name s =
     (let r = draft_round s; idx = draft_index s
      in if r mod 2 = 1 then (if idx = 0 then ''Team A'' else ''Team B'')
         else (if idx = 0 then ''Team B'' else ''Team A''))"

definition team_dict :: "string \<Rightarrow> draft_state \<Rightarrow> (string \<rightharpoonup> Player)" where
  "team_dict nm s = (if nm = ''Team A'' then team_a s else team_b s)"

definition unfilled_positions :: "string \<Rightarrow> draft_state \<Rightarrow> string list" where
  "unfilled_positions nm s = filter (\<lambda>pos. team_dict nm s pos = None) POSITIONS"

definition make_pick :: "string \<Rightarrow> string \<Rightarrow> Player \<Rightarrow> draft_state \<Rightarrow> draft_state" where
  "make_pick team_name pos player s =
     (let s = (if team_name = ''Team A'' then s\<lparr>team_a := (team_a s)(pos \<mapsto> player)\<rparr>
               else s\<lparr>team_b := (team_b s)(pos \<mapsto> player)\<rparr>);
          s = s\<lparr>pool := filter (\<lambda>p. PlayerData.name p \<noteq> PlayerData.name player) (pool s)\<rparr>;
          s = s\<lparr>history := history s @ [(team_name, pos, player)]\<rparr>
      in if draft_index s = 0 then s\<lparr>draft_index := 1\<rparr>
         else s\<lparr>draft_index := 0, draft_round := draft_round s + 1\<rparr>)"

definition undo_last :: "draft_state \<Rightarrow> draft_state" where
  "undo_last s =
     (if history s = [] then s
      else (let (team_name, pos, player) = last (history s);
                s = s\<lparr>history := butlast (history s)\<rparr>;
                s = (if draft_index s = 1 then s\<lparr>draft_index := 0\<rparr>
                     else s\<lparr>draft_index := 1, draft_round := max 1 (draft_round s - 1)\<rparr>);
                s = (if team_name = ''Team A'' then s\<lparr>team_a := (team_a s)(pos := None)\<rparr>
                     else s\<lparr>team_b := (team_b s)(pos := None)\<rparr>)
            in s\<lparr>pool := pool s @ [player]\<rparr>))"

text \<open>
  Lines 171--205: while \<open>draft_round <= 5\<close> the page offers the team on the clock its
  unfilled positions and, for the chosen position, players of the pool that can play
  it; the button calls \<open>make_pick\<close> for the team on the clock. After round 5 the page
  shows that the draft is complete and offers no pick.
\<close>

definition draft_open :: "draft_state \<Rightarrow> bool" where
  "draft_open s \<longleftrightarrow> draft_round s \<le> 5"

definition offered :: "string \<Rightarrow> Player \<Rightarrow> draft_state \<Rightarrow> bool" where
  "offered pos player s \<longleftrightarrow>
     draft_open s \<and> pos \<in> set (unfilled_positions (current_team_name s) s) \<and>
     player \<in> set (list_by_position pos (pool s))"

definition click_make_pick :: "string \<Rightarrow> Player \<Rightarrow> draft_state \<Rightarrow> draft_state" where
  "click_make_pick pos player s =
     (if draft_open s then make_pick (current_team_name s) pos player s else s)"

fun run_picks :: "(string \<times> Player) list \<Rightarrow> draft_state \<Rightarrow> draft_state" where
  "run_picks [] s = s"
| "run_picks ((pos, player) # rest) s = run_picks rest (click_make_pick pos player s)"


section \<open>Determinism given a seed\<close>

text \<open>
  Claim C1. With a seed that is not \<open>None\<close>, \<open>simulate_game\<close> first replaces the
  generator's state by the one the seed determines, so its whole result (score pair,
  box-score dictionary, synergy values, possession count, and also the generator's state
  afterwards, or the exception) is a function of the two teams and the seed: it is the
  same whatever the state of the generator was before the call.
\<close>

theorem simulate_game_deterministic_given_seed:
  "simulate_game seed_state ta tb (Some s) g1 = simulate_game seed_state ta tb (Some s) g2"
  by (simp add: simulate_game_def)

end
